theory Spec2Isabelle
  imports Complex_Main
begin

section \<open>Bracket data and the bracket loop of the test-suite reference calculator\<close>

text \<open>
  The library module \<open>src/taxes/income-tax.ts\<close> is not among the sources; the code that
  walks a bracket table is the reference calculator \<open>calculateProvincialTax\<close> of
  \<open>tests/api/endpoints/provincial-variations.spec.ts\<close>. Currency amounts and rates are
  JavaScript numbers; they are modelled as reals (finite, no rounding). A bracket's
  \<open>max\<close> is a number or \<open>null\<close>, modelled as \<open>real option\<close>.
\<close>

record taxBracket =
  bracket_min :: real
  bracket_max :: "real option"
  rate :: real

text \<open>
  \<open>const bracketMax = bracket.max || Infinity\<close>: \<open>null\<close> and \<open>0\<close> are falsy, so both
  stand for an unbounded bracket. \<open>None\<close> is \<open>Infinity\<close>.
\<close>

definition bracketMax :: "taxBracket \<Rightarrow> real option" where
  "bracketMax b =
     (case bracket_max b of
        None \<Rightarrow> None
      | Some m \<Rightarrow> if m = 0 then None else Some m)"

text \<open>
  \<open>Math.min(taxableIncome - bracketMin, bracketMax - bracketMin)\<close>, where
  \<open>Infinity - bracketMin\<close> is \<open>Infinity\<close>.
\<close>

definition taxableInBracket :: "real \<Rightarrow> taxBracket \<Rightarrow> real" where
  "taxableInBracket taxableIncome b =
     (case bracketMax b of
        None \<Rightarrow> taxableIncome - bracket_min b
      | Some m \<Rightarrow> min (taxableIncome - bracket_min b) (m - bracket_min b))"

text \<open>\<open>taxableIncome <= bracketMax\<close>, true when the bracket is unbounded.\<close>

definition le_bracketMax :: "real \<Rightarrow> taxBracket \<Rightarrow> bool" where
  "le_bracketMax taxableIncome b =
     (case bracketMax b of None \<Rightarrow> True | Some m \<Rightarrow> taxableIncome \<le> m)"

text \<open>
  One iteration of the \<open>for (const bracket of provincialData.taxBrackets)\<close> loop. The
  loop state is the pair \<open>(tax, marginalRate)\<close>.
\<close>

definition bracketStep :: "real \<Rightarrow> taxBracket \<Rightarrow> real \<times> real \<Rightarrow> real \<times> real" where
  "bracketStep taxableIncome b st =
     (case st of (tax, marginalRate) \<Rightarrow>
        if taxableIncome > bracket_min b then
          (tax + taxableInBracket taxableIncome b * rate b,
           if taxableIncome > bracket_min b \<and> le_bracketMax taxableIncome b
           then rate b else marginalRate)
        else (tax, marginalRate))"

fun bracketLoop :: "real \<Rightarrow> taxBracket list \<Rightarrow> real \<times> real \<Rightarrow> real \<times> real" where
  "bracketLoop taxableIncome [] st = st"
| "bracketLoop taxableIncome (b # bs) st =
     bracketLoop taxableIncome bs (bracketStep taxableIncome b st)"

text \<open>The loop as the function starts it: \<open>let tax = 0; let marginalRate = 0\<close>.\<close>

definition bracketTax :: "taxBracket list \<Rightarrow> real \<Rightarrow> real" where
  "bracketTax bs taxableIncome = fst (bracketLoop taxableIncome bs (0, 0))"

definition bracketMarginalRate :: "taxBracket list \<Rightarrow> real \<Rightarrow> real" where
  "bracketMarginalRate bs taxableIncome = snd (bracketLoop taxableIncome bs (0, 0))"

subsection \<open>The reference provincial calculator\<close>

text \<open>
  The province data come from JSON files that are not among the sources
  (\<open>data/provinces/ontario.json\<close>, \<open>quebec.json\<close>); they are parameters. Only the
  fields \<open>calculateProvincialTax\<close> reads are modelled.
\<close>

record surtaxData =
  threshold1 :: real
  threshold2 :: real
  rate1 :: real
  rate2 :: real

record provincialData =
  basicPersonalAmount :: real
  taxBrackets :: "taxBracket list"
  surtax_data :: "surtaxData option"

record quebecProvincialData = provincialData +
  federalAbatement_data :: real

definition defaultData :: provincialData where
  "defaultData =
     \<lparr>basicPersonalAmount = 12000,
      taxBrackets = [\<lparr>bracket_min = 0, bracket_max = Some 50000, rate = 10 / 100\<rparr>],
      surtax_data = None\<rparr>"

definition getProvincialData ::
  "provincialData \<Rightarrow> quebecProvincialData \<Rightarrow> string \<Rightarrow> provincialData" where
  "getProvincialData ontarioData quebecData province =
     (if province = ''ON'' then ontarioData
      else if province = ''QC'' then provincialData.truncate quebecData
      else defaultData)"

text \<open>\<open>Math.max(0, tax - credit)\<close>, the floor every reference calculator applies to its net tax.\<close>

definition netTaxAfterCredit :: "real \<Rightarrow> real \<Rightarrow> real" where
  "netTaxAfterCredit tax credit = max 0 (tax - credit)"

text \<open>The Ontario surtax block: \<open>if (province === 'ON' && provincialData.surtax)\<close>.\<close>

definition surtaxOn :: "string \<Rightarrow> provincialData \<Rightarrow> real \<Rightarrow> real" where
  "surtaxOn province pd tax =
     (case surtax_data pd of
        None \<Rightarrow> 0
      | Some s \<Rightarrow>
          if province = ''ON'' then
            (if tax > threshold1 s
             then min (tax - threshold1 s) (threshold2 s - threshold1 s) * rate1 s else 0)
            + (if tax > threshold2 s then (tax - threshold2 s) * rate2 s else 0)
          else 0)"

text \<open>\<open>provincialData.taxBrackets[0]?.rate || 0.05\<close>: a missing or zero rate gives 0.05.\<close>

definition firstRateOrDefault :: "taxBracket list \<Rightarrow> real" where
  "firstRateOrDefault bs =
     (case bs of [] \<Rightarrow> 5 / 100 | b # _ \<Rightarrow> if rate b = 0 then 5 / 100 else rate b)"

record taxResult =
  taxableIncome :: real
  taxOwing :: real
  nonRefundableCredits :: real
  netTax :: real
  finalTax :: real

record provincialResult = taxResult +
  province :: string
  surtax :: real
  marginalRate :: real
  effectiveRate :: real
  federalAbatement :: real
  federalTaxReduction :: real

definition calculateProvincialTax ::
  "provincialData \<Rightarrow> quebecProvincialData \<Rightarrow> real \<Rightarrow> string \<Rightarrow> provincialResult" where
  "calculateProvincialTax ontarioData quebecData income prov =
     (let pd = getProvincialData ontarioData quebecData prov;
          basicPersonal = basicPersonalAmount pd;
          taxable = max 0 (income - basicPersonal);
          st = bracketLoop taxable (taxBrackets pd) (0, 0);
          tax = fst st;
          sur = surtaxOn prov pd tax;
          totalTax = tax + sur;
          basicPersonalCredit = basicPersonal * firstRateOrDefault (taxBrackets pd);
          net = netTaxAfterCredit totalTax basicPersonalCredit
      in \<lparr>taxableIncome = taxable,
          taxOwing = totalTax,
          nonRefundableCredits = basicPersonalCredit,
          netTax = net,
          finalTax = net,
          province = prov,
          surtax = sur,
          marginalRate = snd st,
          effectiveRate = (if income > 0 then totalTax / income else 0),
          federalAbatement = (if prov = ''QC'' then federalAbatement_data quebecData else 0),
          federalTaxReduction =
            (if prov = ''QC'' then income * (15 / 100) * federalAbatement_data quebecData else 0)\<rparr>)"

subsection \<open>The reference federal calculator\<close>

text \<open>
  \<open>calculateFederalTax\<close> of \<open>tests/api/integration/complete-tax-flow.spec.ts\<close>; its
  first parameter, \<open>taxableIncome\<close> in the source, is \<open>income\<close> here. Its bracket
  chain is written out bracket by bracket; the same chain computes \<open>federalTax\<close> in
  \<open>calculateIncomeTax\<close> of \<open>tests/api/endpoints/tax-calculation.spec.ts\<close>.
\<close>

definition federalBracketChain :: "real \<Rightarrow> real" where
  "federalBracketChain taxableBase =
     (if taxableBase > 0 then
        min taxableBase 53359 * (15 / 100)
        + (if taxableBase > 53359 then min (taxableBase - 53359) 53358 * (205 / 1000) else 0)
        + (if taxableBase > 106717 then min (taxableBase - 106717) 58309 * (26 / 100) else 0)
        + (if taxableBase > 165026 then min (taxableBase - 165026) 70000 * (29 / 100) else 0)
        + (if taxableBase > 235026 then (taxableBase - 235026) * (33 / 100) else 0)
      else 0)"

text \<open>\<open>if (province === 'QC') { tax *= 0.835; }\<close>, the 16.5 percent Quebec abatement.\<close>

definition quebecAbatement :: "real \<Rightarrow> string \<Rightarrow> real" where
  "quebecAbatement tax prov = (if prov = ''QC'' then tax * (835 / 1000) else tax)"

definition calculateFederalTax :: "real \<Rightarrow> string \<Rightarrow> taxResult" where
  "calculateFederalTax income prov =
     (let basicPersonal = 15000;
          taxableBase = max 0 (income - basicPersonal);
          tax = quebecAbatement (federalBracketChain taxableBase) prov;
          basicPersonalCredit = basicPersonal * (15 / 100);
          net = netTaxAfterCredit tax basicPersonalCredit
      in \<lparr>taxableIncome = taxableBase + basicPersonal,
          taxOwing = tax,
          nonRefundableCredits = basicPersonalCredit,
          netTax = net,
          finalTax = net\<rparr>)"

subsection \<open>The reference income-tax calculator\<close>

text \<open>
  \<open>calculateIncomeTax\<close> of \<open>tests/api/endpoints/tax-calculation.spec.ts\<close>. Of its
  parameters it reads \<open>province\<close>, \<open>totalIncome\<close> and the optional
  \<open>rrspContribution\<close> (\<open>params.rrspContribution || 0\<close>). The result has a federal part,
  a provincial part and a combined part. Field names that another record has already
  are suffixed.
\<close>

record TaxCalculationParams =
  params_province :: string
  totalIncome :: real
  rrspContribution :: "real option"

record partResult = taxResult +
  refundableCredits :: real

record provincialPart = partResult +
  part_province :: string

record combinedResult =
  totalTaxOwing :: real
  totalCredits :: real
  netTaxOwing :: real
  combinedMarginalRate :: real
  averageRate :: real

record incomeTaxResult =
  federal :: partResult
  provincial :: provincialPart
  combined :: combinedResult

text \<open>\<open>provincialRates[params.province] || 0.10\<close>.\<close>

definition provincialRateOf :: "string \<Rightarrow> real" where
  "provincialRateOf prov =
     (if prov = ''ON'' then 505 / 10000
      else if prov = ''QC'' then 14 / 100
      else if prov = ''BC'' then 506 / 10000
      else if prov = ''AB'' then 10 / 100
      else 10 / 100)"

definition calculateIncomeTax :: "TaxCalculationParams \<Rightarrow> incomeTaxResult" where
  "calculateIncomeTax params =
     (let basicPersonal = 15000;
          taxable = max 0 (totalIncome params
                           - (case rrspContribution params of None \<Rightarrow> 0 | Some c \<Rightarrow> c)
                           - basicPersonal);
          federalTax = federalBracketChain taxable;
          provincialRate = provincialRateOf (params_province params);
          provincialTax = taxable * provincialRate;
          totalTax = federalTax + provincialTax;
          marginal = (if totalIncome params > 53359 then 295 / 1000 else 205 / 1000);
          average = (if totalIncome params > 0 then totalTax / totalIncome params else 0)
      in \<lparr>federal =
            \<lparr>taxableIncome = taxable + basicPersonal,
             taxOwing = federalTax,
             nonRefundableCredits = basicPersonal * (15 / 100),
             netTax = netTaxAfterCredit federalTax (basicPersonal * (15 / 100)),
             finalTax = netTaxAfterCredit federalTax (basicPersonal * (15 / 100)),
             refundableCredits = 0\<rparr>,
          provincial =
            \<lparr>taxableIncome = taxable + basicPersonal,
             taxOwing = provincialTax,
             nonRefundableCredits = basicPersonal * provincialRate * (5 / 10),
             netTax = netTaxAfterCredit provincialTax (basicPersonal * provincialRate * (5 / 10)),
             finalTax = netTaxAfterCredit provincialTax (basicPersonal * provincialRate * (5 / 10)),
             refundableCredits = 0,
             part_province = params_province params\<rparr>,
          combined =
            \<lparr>totalTaxOwing = federalTax + provincialTax,
             totalCredits = basicPersonal * (15 / 100) + basicPersonal * provincialRate * (5 / 10),
             netTaxOwing = totalTax,
             combinedMarginalRate = marginal,
             averageRate = average\<rparr>\<rparr>)"

text \<open>
  The table that the bracket chain of the federal reference calculator spells out.
\<close>

definition federalBrackets :: "taxBracket list" where
  "federalBrackets =
     [\<lparr>bracket_min = 0, bracket_max = Some 53359, rate = 15 / 100\<rparr>,
      \<lparr>bracket_min = 53359, bracket_max = Some 106717, rate = 205 / 1000\<rparr>,
      \<lparr>bracket_min = 106717, bracket_max = Some 165026, rate = 26 / 100\<rparr>,
      \<lparr>bracket_min = 165026, bracket_max = Some 235026, rate = 29 / 100\<rparr>,
      \<lparr>bracket_min = 235026, bracket_max = None, rate = 33 / 100\<rparr>]"

section \<open>The specification's vocabulary for bracket tables\<close>

text \<open>
  The specification states the walk through \<open>clamp(income, lowerBound, upperBound)\<close>. The
  upper bound of a bracket is \<open>bracketMax\<close>, where \<open>None\<close> is unbounded.
\<close>

definition clamp :: "real \<Rightarrow> real \<Rightarrow> real option \<Rightarrow> real" where
  "clamp x lo hi = (case hi of None \<Rightarrow> max x lo | Some h \<Rightarrow> min (max x lo) h)"

definition portionInSegment :: "real \<Rightarrow> taxBracket \<Rightarrow> real" where
  "portionInSegment income b = clamp income (bracket_min b) (bracketMax b) - bracket_min b"

text \<open>A bracket whose lower bound does not exceed its upper bound.\<close>

definition bounds_ordered :: "taxBracket \<Rightarrow> bool" where
  "bounds_ordered b = (case bracketMax b of None \<Rightarrow> True | Some m \<Rightarrow> bracket_min b \<le> m)"

text \<open>
  The data model's invariant on a table: segments ordered by lower bound, contiguous
  (each upper bound is the next lower bound), the last one unbounded.
\<close>

fun wellFormedTable :: "taxBracket list \<Rightarrow> bool" where
  "wellFormedTable [] = True"
| "wellFormedTable [b] = (bracketMax b = None)"
| "wellFormedTable (b # c # bs) =
     (bracketMax b = Some (bracket_min c) \<and> bracket_min b \<le> bracket_min c
      \<and> wellFormedTable (c # bs))"

text \<open>The table of the specification's scenarios: 15 percent up to 50000, 26 percent above.\<close>

definition exampleTable :: "taxBracket list" where
  "exampleTable =
     [\<lparr>bracket_min = 0, bracket_max = Some 50000, rate = 15 / 100\<rparr>,
      \<lparr>bracket_min = 50000, bracket_max = None, rate = 26 / 100\<rparr>]"

text \<open>Province data that carry the example table, with no basic personal amount.\<close>

definition exampleQuebec :: quebecProvincialData where
  "exampleQuebec =
     \<lparr>basicPersonalAmount = 0, taxBrackets = exampleTable, surtax_data = None,
      federalAbatement_data = 165 / 1000\<rparr>"

section \<open>JavaScript numbers with their special values\<close>

text \<open>
  Where a claim is about \<open>NaN\<close> or \<open>Infinity\<close>, a number is a finite real or one of
  the three special values. Rounding, overflow of finite results and the sign of
  zero are not modelled.
\<close>

datatype jsnum = Fin real | PosInf | NegInf | NaN

fun isFinite :: "jsnum \<Rightarrow> bool" where
  "isFinite (Fin x) = True"
| "isFinite n = False"

text \<open>\<open>a < b\<close>: false as soon as one side is \<open>NaN\<close>.\<close>

fun js_lt :: "jsnum \<Rightarrow> jsnum \<Rightarrow> bool" where
  "js_lt (Fin a) (Fin b) = (a < b)"
| "js_lt (Fin a) PosInf = True"
| "js_lt NegInf (Fin b) = True"
| "js_lt NegInf PosInf = True"
| "js_lt a b = False"

definition js_gt :: "jsnum \<Rightarrow> jsnum \<Rightarrow> bool" where
  "js_gt a b = js_lt b a"

text \<open>
  \<open>a / b\<close>: a finite number over zero is an infinity, or \<open>NaN\<close> for \<open>0 / 0\<close>; zero is
  taken as positive.
\<close>

fun js_div :: "jsnum \<Rightarrow> jsnum \<Rightarrow> jsnum" where
  "js_div (Fin a) (Fin b) =
     (if b \<noteq> 0 then Fin (a / b)
      else if a = 0 then NaN else if a > 0 then PosInf else NegInf)"
| "js_div (Fin a) PosInf = Fin 0"
| "js_div (Fin a) NegInf = Fin 0"
| "js_div PosInf (Fin b) = (if b \<ge> 0 then PosInf else NegInf)"
| "js_div NegInf (Fin b) = (if b \<ge> 0 then NegInf else PosInf)"
| "js_div a b = NaN"

section \<open>The effective rate of the API service\<close>

text \<open>
  \<open>TaxCalculationService.calculateIncomeTax\<close> (the service class, in
  \<open>api/src/types/index.ts\<close>) computes
  \<open>const effectiveTaxRate = grossIncome > 0 ? totalTax / grossIncome : 0\<close>. The total
  tax comes from \<open>getTotalTaxAmount\<close> of the library, which is not among the sources:
  it is a parameter. The response rounds the rate with \<open>roundToPrecision\<close>, also not
  among the sources; the rate here is the one before rounding.
\<close>

definition effectiveTaxRate :: "jsnum \<Rightarrow> jsnum \<Rightarrow> jsnum" where
  "effectiveTaxRate totalTax grossIncome =
     (if js_gt grossIncome (Fin 0) then js_div totalTax grossIncome else Fin 0)"

section \<open>Indexation and the evaluator's income policy\<close>

text \<open>
  Modelled from the spec: \<open>indexTable\<close> and \<open>evaluateTax\<close> belong to the library module
  \<open>src/taxes/income-tax.ts\<close> (\<open>getFederalTaxAmount\<close> and its helpers), which is not among
  the sources; only its callers and tests are. The records follow section 3 of the
  specification, the functions sections 4.1 and 4.2. \<open>None\<close> is the unbounded upper
  limit. The rate of a segment is \<open>marginalRate\<close> in the specification.
\<close>

record BracketSegment =
  lowerBound :: real
  upperBound :: "real option"
  segmentRate :: real

record BracketTable =
  jurisdiction :: string
  taxYear :: int
  segments :: "BracketSegment list"
  baseCredit :: real
  baseCreditRate :: real

text \<open>
  Modelled from the spec: multiply every bound and the base credit by
  \<open>(1 + inflationRate)^yearsToInflate\<close>; the unbounded upper limit remains unbounded.
\<close>

definition scaleSegment :: "real \<Rightarrow> BracketSegment \<Rightarrow> BracketSegment" where
  "scaleSegment f s =
     s\<lparr>lowerBound := lowerBound s * f,
       upperBound := (case upperBound s of None \<Rightarrow> None | Some u \<Rightarrow> Some (u * f))\<rparr>"

text \<open>
  Modelled from the spec: \<open>indexTable(table, inflationRate, yearsToInflate)\<close> of the
  missing library module; \<open>yearsToInflate\<close> is a non-negative integer.
\<close>

definition indexTable :: "BracketTable \<Rightarrow> real \<Rightarrow> nat \<Rightarrow> BracketTable" where
  "indexTable table inflationRate yearsToInflate =
     (let f = (1 + inflationRate) ^ yearsToInflate
      in table\<lparr>segments := map (scaleSegment f) (segments table),
               baseCredit := baseCredit table * f\<rparr>)"

text \<open>
  Modelled from the spec: negative or non-finite income is clamped to zero before
  computation.
\<close>

fun clampIncome :: "jsnum \<Rightarrow> real" where
  "clampIncome (Fin x) = (if x < 0 then 0 else x)"
| "clampIncome n = 0"

text \<open>
  Modelled from the spec: walk the segments in ascending order; for each segment
  accumulate \<open>(clamp(income, lowerBound, upperBound) - lowerBound) * marginalRate\<close>; stop
  once \<open>income <= segment.upperBound\<close>.
\<close>

fun walkSegments :: "real \<Rightarrow> BracketSegment list \<Rightarrow> real \<Rightarrow> real" where
  "walkSegments income [] acc = acc"
| "walkSegments income (s # ss) acc =
     (let acc' = acc + (clamp income (lowerBound s) (upperBound s) - lowerBound s) * segmentRate s
      in if (case upperBound s of None \<Rightarrow> True | Some u \<Rightarrow> income \<le> u) then acc'
         else walkSegments income ss acc')"

text \<open>
  Modelled from the spec: \<open>evaluateTax(indexedTable, income)\<close> of the missing library
  module, the income clamped first, then the walk.
\<close>

definition evaluateTax :: "BracketTable \<Rightarrow> jsnum \<Rightarrow> real" where
  "evaluateTax indexedTable income = walkSegments (clampIncome income) (segments indexedTable) 0"

text \<open>The incomes the policy is about.\<close>

fun negativeOrNonFinite :: "jsnum \<Rightarrow> bool" where
  "negativeOrNonFinite (Fin x) = (x < 0)"
| "negativeOrNonFinite n = True"

text \<open>A table whose lowest segment starts at zero or above, with ordered bounds.\<close>

definition startsAtOrAboveZero :: "BracketTable \<Rightarrow> bool" where
  "startsAtOrAboveZero t =
     (case segments t of
        [] \<Rightarrow> True
      | s # _ \<Rightarrow> 0 \<le> lowerBound s
                \<and> (case upperBound s of None \<Rightarrow> True | Some u \<Rightarrow> lowerBound s \<le> u))"

text \<open>The specification's example table as a \<open>BracketTable\<close>.\<close>

definition exampleBracketTable :: BracketTable where
  "exampleBracketTable =
     \<lparr>jurisdiction = ''CA'', taxYear = 2025,
      segments =
        [\<lparr>lowerBound = 0, upperBound = Some 50000, segmentRate = 15 / 100\<rparr>,
         \<lparr>lowerBound = 50000, upperBound = None, segmentRate = 26 / 100\<rparr>],
      baseCredit = 15000, baseCreditRate = 15 / 100\<rparr>"

text \<open>
  A segment of the specification read as a bracket of the reference calculator, to
  compare the two walks.
\<close>

definition toTaxBracket :: "BracketSegment \<Rightarrow> taxBracket" where
  "toTaxBracket s = \<lparr>bracket_min = lowerBound s, bracket_max = upperBound s, rate = segmentRate s\<rparr>"

section \<open>Request validation of the income-tax endpoint\<close>

text \<open>
  A request body is the value \<open>express.json()\<close> parsed. An object is an association
  list of its properties; \<open>JSON.parse\<close> can yield \<open>Infinity\<close> for a literal such as
  \<open>1e999\<close>, never \<open>NaN\<close>.
\<close>

datatype json =
    JNull
  | JBool bool
  | JNum jsnum
  | JStr string
  | JArr "json list"
  | JObj "(string \<times> json) list"

text \<open>
  The property schemas of \<open>api/src/schemas/index.ts\<close>: a number with \<open>minimum\<close> and
  \<open>maximum\<close>, a string with an \<open>enum\<close>, a boolean. The \<open>default\<close> keyword has no
  effect on validation (the validator is not created with \<open>useDefaults\<close>) and is left out.
\<close>

datatype propSchema =
    NumberSchema real real
  | StringEnumSchema "string list"
  | BooleanSchema

record objectSchema =
  properties :: "(string \<times> propSchema) list"
  required :: "string list"
  additionalProperties :: bool

definition provinceCodes :: "string list" where
  "provinceCodes =
     [''AB'', ''BC'', ''MB'', ''NB'', ''NL'', ''NS'', ''NT'', ''NU'', ''ON'', ''PE'', ''QC'',
      ''SK'', ''YT'']"

definition incomeTaxRequestSchema :: objectSchema where
  "incomeTaxRequestSchema =
     \<lparr>properties =
        [(''grossIncome'', NumberSchema 0 10000000),
         (''province'', StringEnumSchema provinceCodes),
         (''year'', NumberSchema 2000 2030),
         (''inflationRate'', NumberSchema (- (1 / 10)) (3 / 10)),
         (''yearsToInflate'', NumberSchema 0 50)],
      required = [''grossIncome'', ''province''],
      additionalProperties = False\<rparr>"

text \<open>
  The validator is the \<open>ajv\<close> package, a dependency. Its keywords are modelled as its
  documentation defines them: \<open>type\<close> checks the JavaScript type, \<open>minimum\<close> and
  \<open>maximum\<close> fail on a number outside the bound and on \<open>NaN\<close>, \<open>enum\<close> needs an equal
  member.
\<close>

fun validProperty :: "propSchema \<Rightarrow> json \<Rightarrow> bool" where
  "validProperty (NumberSchema lo hi) (JNum n) =
     (n \<noteq> NaN \<and> \<not> js_lt n (Fin lo) \<and> \<not> js_gt n (Fin hi))"
| "validProperty (StringEnumSchema codes) (JStr str) = (str \<in> set codes)"
| "validProperty BooleanSchema (JBool b) = True"
| "validProperty sch v = False"

text \<open>
  Validation of an object schema as \<open>new Ajv({ allErrors: true, removeAdditional: true })\<close>
  compiles it. The data must be an object (not an array, not \<open>null\<close>); every required
  property must be present; every present property with a schema must satisfy it. With
  \<open>removeAdditional: true\<close>, a property that the schema does not list is deleted from the
  data where the schema has \<open>additionalProperties: false\<close>, and it is not an error. The
  result is the verdict and the data as validation leaves them.
\<close>

definition validate :: "objectSchema \<Rightarrow> json \<Rightarrow> bool \<times> json" where
  "validate sch data =
     (case data of
        JObj kvs \<Rightarrow>
          (list_all (\<lambda>r. r \<in> set (map fst kvs)) (required sch)
           \<and> list_all (\<lambda>(k, ps). case map_of kvs k of None \<Rightarrow> True
                                  | Some v \<Rightarrow> validProperty ps v) (properties sch),
           JObj (if additionalProperties sch then kvs
                 else filter (\<lambda>(k, v). k \<in> set (map fst (properties sch))) kvs))
      | _ \<Rightarrow> (False, data))"

text \<open>
  \<open>validateRequest\<close> of \<open>api/src/middleware/validation.ts\<close>: on an invalid body it
  answers \<open>res.status(400).json({ success: false, error, code })\<close> and returns; otherwise
  it calls \<open>next()\<close>. The text of the error message is not modelled.
\<close>

record errorResponse =
  statusCode :: nat
  success :: bool
  code :: string

datatype middlewareResult = Respond errorResponse | CallNext json

definition validateRequest :: "objectSchema \<Rightarrow> json \<Rightarrow> middlewareResult" where
  "validateRequest sch body =
     (case validate sch body of
        (valid, body') \<Rightarrow>
          if \<not> valid
          then Respond \<lparr>statusCode = 400, success = False, code = ''VALIDATION_ERROR''\<rparr>
          else CallNext body')"

text \<open>
  The route \<open>router.post('/income-tax', validateRequest(incomeTaxRequestSchema),
  asyncHandler(calculateIncomeTax))\<close>: the handler runs only when the middleware calls
  \<open>next()\<close>, on the body the middleware leaves.
\<close>

definition incomeTaxRoute :: "(json \<Rightarrow> 'a) \<Rightarrow> json \<Rightarrow> errorResponse + 'a" where
  "incomeTaxRoute handler body =
     (case validateRequest incomeTaxRequestSchema body of
        Respond r \<Rightarrow> Inl r
      | CallNext body' \<Rightarrow> Inr (handler body'))"

text \<open>
  The claim's reading of the schema, property by property: what a body must be for the
  request to pass.
\<close>

definition numberWithin :: "real \<Rightarrow> real \<Rightarrow> json \<Rightarrow> bool" where
  "numberWithin lo hi v = (case v of JNum (Fin x) \<Rightarrow> lo \<le> x \<and> x \<le> hi | _ \<Rightarrow> False)"

definition absentOr :: "(json \<Rightarrow> bool) \<Rightarrow> json option \<Rightarrow> bool" where
  "absentOr P v = (case v of None \<Rightarrow> True | Some w \<Rightarrow> P w)"

definition presentAnd :: "(json \<Rightarrow> bool) \<Rightarrow> json option \<Rightarrow> bool" where
  "presentAnd P v = (case v of None \<Rightarrow> False | Some w \<Rightarrow> P w)"

definition isProvinceCode :: "json \<Rightarrow> bool" where
  "isProvinceCode v = (case v of JStr str \<Rightarrow> str \<in> set provinceCodes | _ \<Rightarrow> False)"

definition acceptableBody :: "json \<Rightarrow> bool" where
  "acceptableBody body =
     (case body of
        JObj kvs \<Rightarrow>
          presentAnd (numberWithin 0 10000000) (map_of kvs ''grossIncome'')
          \<and> presentAnd isProvinceCode (map_of kvs ''province'')
          \<and> absentOr (numberWithin 2000 2030) (map_of kvs ''year'')
          \<and> absentOr (numberWithin (- (1 / 10)) (3 / 10)) (map_of kvs ''inflationRate'')
          \<and> absentOr (numberWithin 0 50) (map_of kvs ''yearsToInflate'')
      | _ \<Rightarrow> False)"

text \<open>A property the schema does not list.\<close>

definition hasExtraProperty :: "json \<Rightarrow> bool" where
  "hasExtraProperty body =
     (case body of
        JObj kvs \<Rightarrow> \<not> list_all (\<lambda>(k, v). k \<in> set (map fst (properties incomeTaxRequestSchema))) kvs
      | _ \<Rightarrow> False)"

text \<open>The error answer of the middleware, and the keys the schema lists.\<close>

definition validationError :: errorResponse where
  "validationError = \<lparr>statusCode = 400, success = False, code = ''VALIDATION_ERROR''\<rparr>"

definition listedKey :: "string \<Rightarrow> bool" where
  "listedKey k = (k \<in> set (map fst (properties incomeTaxRequestSchema)))"

text \<open>A valid request that carries one more property.\<close>

definition bodyWithExtra :: json where
  "bodyWithExtra =
     JObj [(''grossIncome'', JNum (Fin 75000)), (''province'', JStr ''ON''),
           (''debug'', JBool True)]"

section \<open>Properties of the bracket loop\<close>

lemma bracketStep_fst:
  "fst (bracketStep x b st) =
     fst st + (if x > bracket_min b then taxableInBracket x b * rate b else 0)"
  by (simp add: bracketStep_def split: prod.splits)

lemma bracketStep_snd:
  "snd (bracketStep x b st) =
     (if x > bracket_min b \<and> le_bracketMax x b then rate b else snd st)"
  by (simp add: bracketStep_def split: prod.splits)

lemma bracketLoop_fst:
  "fst (bracketLoop x bs st) =
     fst st + (\<Sum>b\<leftarrow>bs. if x > bracket_min b then taxableInBracket x b * rate b else 0)"
  by (induction bs arbitrary: st) (simp_all add: bracketStep_fst)

lemma bracketLoop_below:
  "\<forall>b\<in>set bs. x \<le> bracket_min b \<Longrightarrow> bracketLoop x bs st = st"
  by (induction bs arbitrary: st) (auto simp: bracketStep_def)

lemma portion_eq:
  "bounds_ordered b \<Longrightarrow>
   (if x > bracket_min b then taxableInBracket x b * rate b else 0) = portionInSegment x b * rate b"
  by (auto simp: portionInSegment_def clamp_def taxableInBracket_def bounds_ordered_def
      split: option.splits)

lemma bracketTax_sum:
  assumes "\<forall>b\<in>set bs. bounds_ordered b"
  shows "bracketTax bs x = (\<Sum>b\<leftarrow>bs. portionInSegment x b * rate b)"
proof -
  have "map (\<lambda>b. if x > bracket_min b then taxableInBracket x b * rate b else 0) bs
        = map (\<lambda>b. portionInSegment x b * rate b) bs"
    using assms by (intro map_cong refl) (simp add: portion_eq)
  then have "(\<Sum>b\<leftarrow>bs. if x > bracket_min b then taxableInBracket x b * rate b else 0)
        = (\<Sum>b\<leftarrow>bs. portionInSegment x b * rate b)"
    by (rule arg_cong)
  then show ?thesis unfolding bracketTax_def bracketLoop_fst by simp
qed

lemma portion_mono: "x \<le> y \<Longrightarrow> portionInSegment x b \<le> portionInSegment y b"
  by (auto simp: portionInSegment_def clamp_def split: option.splits)

lemma portion_zero:
  "x \<le> bracket_min b \<Longrightarrow> bounds_ordered b \<Longrightarrow> portionInSegment x b = 0"
  by (auto simp: portionInSegment_def clamp_def bounds_ordered_def split: option.splits)

lemma portion_full:
  assumes "bracketMax b = Some m" "bracket_min b \<le> m" "m \<le> x"
  shows "portionInSegment x b = m - bracket_min b"
  using assms by (auto simp: portionInSegment_def clamp_def)

lemma portion_inside:
  assumes "bracket_min b \<le> x" "le_bracketMax x b"
  shows "portionInSegment x b = x - bracket_min b"
  using assms
  by (auto simp: portionInSegment_def clamp_def le_bracketMax_def split: option.splits)

lemma bracketTax_mono:
  assumes "\<forall>b\<in>set bs. bounds_ordered b \<and> 0 \<le> rate b" and "x \<le> y"
  shows "bracketTax bs x \<le> bracketTax bs y"
proof -
  have "(\<Sum>b\<leftarrow>bs. portionInSegment x b * rate b) \<le> (\<Sum>b\<leftarrow>bs. portionInSegment y b * rate b)"
    using assms by (intro sum_list_mono mult_right_mono portion_mono) auto
  then show ?thesis using assms by (simp add: bracketTax_sum)
qed

lemma bracketTax_below: "\<forall>b\<in>set bs. x \<le> bracket_min b \<Longrightarrow> bracketTax bs x = 0"
  by (simp add: bracketTax_def bracketLoop_below)

lemma bracketMarginalRate_below:
  "\<forall>b\<in>set bs. x \<le> bracket_min b \<Longrightarrow> bracketMarginalRate bs x = 0"
  by (simp add: bracketMarginalRate_def bracketLoop_below)

lemmas example_unfold =
  exampleTable_def bracketTax_def bracketMarginalRate_def bracketStep_def
  taxableInBracket_def bracketMax_def le_bracketMax_def

subsection \<open>Well-formed tables\<close>

lemma wf_tail: "wellFormedTable (b # bs) \<Longrightarrow> wellFormedTable bs"
  by (cases bs) auto

lemma wf_lower_bounds:
  "wellFormedTable (b # bs) \<Longrightarrow> c \<in> set bs \<Longrightarrow> bracket_min b \<le> bracket_min c"
proof (induction bs arbitrary: b)
  case Nil
  then show ?case by simp
next
  case (Cons d ds)
  show ?case
  proof (cases "c = d")
    case True
    with Cons.prems show ?thesis by simp
  next
    case False
    with Cons.prems have "c \<in> set ds" by simp
    moreover from Cons.prems have "wellFormedTable (d # ds)" "bracket_min b \<le> bracket_min d"
      by simp_all
    ultimately show ?thesis using Cons.IH[of d] by force
  qed
qed

lemma wf_upper_le_later:
  "wellFormedTable (b # bs) \<Longrightarrow> c \<in> set bs \<Longrightarrow>
   \<exists>m. bracketMax b = Some m \<and> m \<le> bracket_min c"
  by (cases bs) (auto dest: wf_lower_bounds)

lemma wf_bounds_ordered: "wellFormedTable bs \<Longrightarrow> b \<in> set bs \<Longrightarrow> bounds_ordered b"
proof (induction bs rule: wellFormedTable.induct)
  case 1
  then show ?case by simp
next
  case (2 b')
  then show ?case by (simp add: bounds_ordered_def)
next
  case (3 b' c bs)
  then show ?case by (auto simp: bounds_ordered_def)
qed

lemma wf_append_right: "wellFormedTable (pre @ bs) \<Longrightarrow> wellFormedTable bs"
  by (induction pre) (auto dest: wf_tail)

lemma marginal_in_segment:
  assumes "wellFormedTable bs" "b \<in> set bs" "bracket_min b < x" "le_bracketMax x b"
  shows "snd (bracketLoop x bs st) = rate b"
  using assms
proof (induction bs arbitrary: st)
  case Nil
  then show ?case by simp
next
  case (Cons a as)
  show ?case
  proof (cases "b = a")
    case True
    have "\<forall>c\<in>set as. x \<le> bracket_min c"
    proof
      fix c assume "c \<in> set as"
      with Cons.prems(1) obtain m where "bracketMax a = Some m" "m \<le> bracket_min c"
        using wf_upper_le_later by blast
      with Cons.prems(4) True show "x \<le> bracket_min c" by (simp add: le_bracketMax_def)
    qed
    then have "bracketLoop x as (bracketStep x a st) = bracketStep x a st"
      by (rule bracketLoop_below)
    with True Cons.prems show ?thesis by (simp add: bracketStep_snd)
  next
    case False
    with Cons.prems have "b \<in> set as" by simp
    moreover have "wellFormedTable as" using Cons.prems(1) by (rule wf_tail)
    ultimately show ?thesis using Cons.IH Cons.prems by simp
  qed
qed

lemma segment_exists:
  assumes "wellFormedTable bs" "bs \<noteq> []" "bracket_min (hd bs) < x"
  shows "\<exists>b\<in>set bs. bracket_min b < x \<and> le_bracketMax x b"
  using assms
proof (induction bs rule: wellFormedTable.induct)
  case 1
  then show ?case by simp
next
  case (2 b)
  then show ?case by (simp add: le_bracketMax_def)
next
  case (3 b c bs)
  show ?case
  proof (cases "x \<le> bracket_min c")
    case True
    with 3 show ?thesis by (auto simp: le_bracketMax_def)
  next
    case False
    with 3 show ?thesis by auto
  qed
qed

lemma segment_unique_aux:
  assumes "wellFormedTable (a # as)" "bracket_min a < x" "le_bracketMax x a"
    "c \<in> set as" "bracket_min c < x"
  shows False
proof -
  from assms(1,4) obtain m where "bracketMax a = Some m" "m \<le> bracket_min c"
    using wf_upper_le_later by blast
  with assms(3,5) show False by (simp add: le_bracketMax_def)
qed

lemma segment_unique:
  assumes "wellFormedTable bs" "b \<in> set bs" "c \<in> set bs"
    "bracket_min b < x" "le_bracketMax x b" "bracket_min c < x" "le_bracketMax x c"
  shows "b = c"
  using assms
proof (induction bs)
  case Nil
  then show ?case by simp
next
  case (Cons a as)
  have wf: "wellFormedTable as" using Cons.prems(1) by (rule wf_tail)
  show ?case
  proof (cases "b = a")
    case True
    show ?thesis
    proof (cases "c = a")
      case True
      with \<open>b = a\<close> show ?thesis by simp
    next
      case False
      with Cons.prems have "c \<in> set as" by simp
      with Cons.prems True segment_unique_aux[of a as x c] show ?thesis by blast
    qed
  next
    case False
    with Cons.prems have b: "b \<in> set as" by simp
    show ?thesis
    proof (cases "c = a")
      case True
      with Cons.prems b segment_unique_aux[of a as x b] show ?thesis by blast
    next
      case False
      with Cons.prems have "c \<in> set as" by simp
      with b wf Cons.IH Cons.prems show ?thesis by blast
    qed
  qed
qed

lemma wf_all_lower:
  assumes "wellFormedTable bs" "bs \<noteq> []" "x \<le> bracket_min (hd bs)"
  shows "\<forall>b\<in>set bs. x \<le> bracket_min b"
proof (cases bs)
  case Nil
  with assms show ?thesis by simp
next
  case (Cons a as)
  with assms wf_lower_bounds[of a as] show ?thesis by fastforce
qed

lemma wf_pre_upper:
  assumes "wellFormedTable (pre @ b # bs)" "p \<in> set pre"
  shows "\<exists>m. bracketMax p = Some m \<and> bracket_min p \<le> m \<and> m \<le> bracket_min b"
  using assms
proof (induction pre)
  case Nil
  then show ?case by simp
next
  case (Cons a as)
  show ?case
  proof (cases "p = a")
    case True
    have "b \<in> set (as @ b # bs)" by simp
    with Cons.prems(1) obtain m where m: "bracketMax a = Some m" "m \<le> bracket_min b"
      using wf_upper_le_later[of a "as @ b # bs" b] by auto
    have "bounds_ordered a"
      using Cons.prems(1) wf_bounds_ordered[of "a # as @ b # bs" a] by simp
    with m True show ?thesis by (simp add: bounds_ordered_def)
  next
    case False
    with Cons.prems have "p \<in> set as" by simp
    moreover have "wellFormedTable (as @ b # bs)"
      using Cons.prems(1) wf_tail[of a "as @ b # bs"] by simp
    ultimately show ?thesis using Cons.IH by blast
  qed
qed

lemma example_wellFormed: "wellFormedTable exampleTable"
  by (simp add: exampleTable_def bracketMax_def)

text \<open>
  Within one segment the tax is linear in the income, with the segment's rate as slope.
\<close>

lemma sum_portions_cong:
  assumes "\<And>d. d \<in> set ds \<Longrightarrow> portionInSegment y d = portionInSegment x d"
  shows "(\<Sum>d\<leftarrow>ds. portionInSegment y d * rate d) = (\<Sum>d\<leftarrow>ds. portionInSegment x d * rate d)"
  using assms by (intro arg_cong[where f = sum_list] map_cong refl) simp

lemma bracketTax_linear_in_segment:
  assumes wf: "wellFormedTable (pre @ b # post)"
    and x: "bracket_min b \<le> x" "x \<le> y" "le_bracketMax y b"
  shows "bracketTax (pre @ b # post) y - bracketTax (pre @ b # post) x = (y - x) * rate b"
proof -
  let ?bs = "pre @ b # post"
  have ord: "\<forall>d\<in>set ?bs. bounds_ordered d" using wf wf_bounds_ordered by blast
  have wfb: "wellFormedTable (b # post)" using wf by (rule wf_append_right)
  have pre_eq: "portionInSegment y p = portionInSegment x p" if "p \<in> set pre" for p
  proof -
    from wf that obtain m
      where m: "bracketMax p = Some m" "bracket_min p \<le> m" "m \<le> bracket_min b"
      using wf_pre_upper by blast
    then have "portionInSegment y p = m - bracket_min p"
      and "portionInSegment x p = m - bracket_min p"
      using x by (auto intro!: portion_full)
    then show ?thesis by simp
  qed
  have post_eq: "portionInSegment y d = portionInSegment x d" if "d \<in> set post" for d
  proof -
    from wfb that obtain m where "bracketMax b = Some m" "m \<le> bracket_min d"
      using wf_upper_le_later by blast
    with x have "y \<le> bracket_min d" "x \<le> bracket_min d" by (simp_all add: le_bracketMax_def)
    moreover have "bounds_ordered d" using ord that by auto
    ultimately show ?thesis by (simp add: portion_zero)
  qed
  have "le_bracketMax x b" using x by (auto simp: le_bracketMax_def split: option.splits)
  then have b_x: "portionInSegment x b = x - bracket_min b"
    using x by (intro portion_inside) auto
  have b_y: "portionInSegment y b = y - bracket_min b"
    using x by (intro portion_inside) auto
  have "bracketTax ?bs z
          = (\<Sum>p\<leftarrow>pre. portionInSegment z p * rate p) + portionInSegment z b * rate b
            + (\<Sum>d\<leftarrow>post. portionInSegment z d * rate d)" for z
    using ord by (simp add: bracketTax_sum)
  then have "bracketTax ?bs y - bracketTax ?bs x
             = (y - bracket_min b) * rate b - (x - bracket_min b) * rate b"
    using sum_portions_cong[of pre y x, OF pre_eq] sum_portions_cong[of post y x, OF post_eq]
      b_x b_y by simp
  then show ?thesis by (simp add: algebra_simps)
qed

section \<open>Properties of the remaining operations\<close>

lemma scaleSegment_one: "scaleSegment 1 s = s"
  by (cases s) (simp add: scaleSegment_def split: option.splits)

lemma effectiveTaxRate_finite: "isFinite totalTax \<Longrightarrow> isFinite (effectiveTaxRate totalTax income)"
  by (cases totalTax; cases income) (auto simp: effectiveTaxRate_def js_gt_def)

lemma walk_zero:
  assumes "startsAtOrAboveZero t"
  shows "walkSegments 0 (segments t) 0 = 0"
proof (cases "segments t")
  case Nil
  then show ?thesis by simp
next
  case (Cons s ss)
  with assms have lb: "0 \<le> lowerBound s"
    and ub: "case upperBound s of None \<Rightarrow> True | Some u \<Rightarrow> lowerBound s \<le> u"
    by (simp_all add: startsAtOrAboveZero_def)
  then have "clamp 0 (lowerBound s) (upperBound s) = lowerBound s"
    by (auto simp: clamp_def split: option.splits)
  moreover have "case upperBound s of None \<Rightarrow> True | Some u \<Rightarrow> 0 \<le> u"
    using lb ub by (auto split: option.splits)
  ultimately show ?thesis using Cons by (simp add: Let_def)
qed

lemma clampIncome_bad: "negativeOrNonFinite income \<Longrightarrow> clampIncome income = 0"
  by (cases income) simp_all

lemma validProperty_number:
  "validProperty (NumberSchema lo hi) v = numberWithin lo hi v"
proof (cases v)
  case (JNum n)
  then show ?thesis by (cases n) (auto simp: numberWithin_def js_gt_def)
qed (simp_all add: numberWithin_def)

lemma validProperty_enum:
  "validProperty (StringEnumSchema provinceCodes) v = isProvinceCode v"
  by (cases v) (simp_all add: isProvinceCode_def)

lemma present_iff: "k \<in> fst ` set kvs \<longleftrightarrow> map_of kvs k \<noteq> None"
  by (simp add: map_of_eq_None_iff)

lemma validate_verdict:
  "fst (validate incomeTaxRequestSchema body) = acceptableBody body"
proof (cases body)
  case (JObj kvs)
  then show ?thesis
    by (simp add: validate_def incomeTaxRequestSchema_def acceptableBody_def present_iff
          presentAnd_def absentOr_def validProperty_number validProperty_enum
          split: option.splits)
qed (simp_all add: validate_def acceptableBody_def)

lemma map_of_filter_key:
  "map_of (filter (\<lambda>(k, v). Q k) kvs) k = (if Q k then map_of kvs k else None)"
  by (induction kvs) auto

lemma validate_data:
  "snd (validate incomeTaxRequestSchema (JObj kvs)) = JObj (filter (\<lambda>(k, v). listedKey k) kvs)"
  by (simp add: validate_def listedKey_def incomeTaxRequestSchema_def)

lemma no_extra_after: "\<not> hasExtraProperty (JObj (filter (\<lambda>(k, v). listedKey k) kvs))"
  by (auto simp: hasExtraProperty_def listedKey_def list_all_iff)

lemma validateRequest_cases:
  "validateRequest incomeTaxRequestSchema body =
     (if acceptableBody body then CallNext (snd (validate incomeTaxRequestSchema body))
      else Respond validationError)"
  using validate_verdict[of body]
  by (cases "validate incomeTaxRequestSchema body") (simp add: validateRequest_def validationError_def)

lemma federal_chain_is_loop: "federalBracketChain x = bracketTax federalBrackets x"
  by (simp add: federalBracketChain_def federalBrackets_def bracketTax_def bracketStep_def
      taxableInBracket_def bracketMax_def le_bracketMax_def)

lemma federal_wf: "wellFormedTable federalBrackets"
  by (simp add: federalBrackets_def bracketMax_def)

subsection \<open>The walk of the specification and the loop of the reference calculator\<close>

text \<open>
  On a well-formed table and a non-negative finite income, the walk that stops at the
  segment holding the income computes what the loop over all segments computes.
\<close>

lemma bracketTax_Cons:
  "bracketTax (b # bs) x
     = (if x > bracket_min b then taxableInBracket x b * rate b else 0) + bracketTax bs x"
  by (simp add: bracketTax_def bracketLoop_fst bracketStep_fst)

lemma toTaxBracket_max: "upperBound s \<noteq> Some 0 \<Longrightarrow> bracketMax (toTaxBracket s) = upperBound s"
  by (simp add: toTaxBracket_def bracketMax_def split: option.splits)

lemma walkSegments_is_loop:
  assumes "wellFormedTable (map toTaxBracket ss)" "\<forall>s\<in>set ss. upperBound s \<noteq> Some 0"
  shows "walkSegments x ss acc = acc + bracketTax (map toTaxBracket ss) x"
  using assms
proof (induction ss arbitrary: acc)
  case Nil
  then show ?case by (simp add: bracketTax_def)
next
  case (Cons s ss)
  let ?b = "toTaxBracket s"
  have mx: "bracketMax ?b = upperBound s" using Cons.prems(2) by (simp add: toTaxBracket_max)
  have ord: "bounds_ordered ?b"
    using Cons.prems(1) wf_bounds_ordered[of "map toTaxBracket (s # ss)" ?b] by simp
  have step: "(clamp x (lowerBound s) (upperBound s) - lowerBound s) * segmentRate s
              = (if x > bracket_min ?b then taxableInBracket x ?b * rate ?b else 0)"
    using portion_eq[OF ord, of x] mx by (simp add: portionInSegment_def toTaxBracket_def)
  have wf: "wellFormedTable (map toTaxBracket ss)"
    using Cons.prems(1) wf_tail[of ?b "map toTaxBracket ss"] by simp
  show ?case
  proof (cases "case upperBound s of None \<Rightarrow> True | Some u \<Rightarrow> x \<le> u")
    case True
    have "\<forall>c\<in>set (map toTaxBracket ss). x \<le> bracket_min c"
    proof
      fix c assume c: "c \<in> set (map toTaxBracket ss)"
      with Cons.prems(1) obtain m where "bracketMax ?b = Some m" "m \<le> bracket_min c"
        using wf_upper_le_later[of ?b "map toTaxBracket ss" c] by auto
      with True mx show "x \<le> bracket_min c" by (auto split: option.splits)
    qed
    then have "bracketTax (map toTaxBracket ss) x = 0" by (rule bracketTax_below)
    with True step show ?thesis by (simp add: bracketTax_Cons Let_def)
  next
    case False
    with step Cons.IH[OF wf] Cons.prems(2) show ?thesis
      by (simp add: bracketTax_Cons Let_def)
  qed
qed

lemma evaluateTax_is_bracketTax:
  assumes "wellFormedTable (map toTaxBracket (segments t))"
    "\<forall>s\<in>set (segments t). upperBound s \<noteq> Some 0" "0 \<le> x"
  shows "evaluateTax t (Fin x) = bracketTax (map toTaxBracket (segments t)) x"
  using walkSegments_is_loop[OF assms(1,2), of x 0] assms(3) by (simp add: evaluateTax_def)

text \<open>
  Indexation with a non-negative factor keeps the bounds of every segment ordered, so
  the tax on an indexed table is monotone in the income as well.
\<close>

lemma scaled_bracket_ordered:
  assumes "0 \<le> f" "bounds_ordered (toTaxBracket s)"
  shows "bounds_ordered (toTaxBracket (scaleSegment f s))"
  using assms
  by (auto simp: bounds_ordered_def toTaxBracket_def scaleSegment_def bracketMax_def
      mult_right_mono split: option.splits if_splits)

lemma scaled_bracket_rate: "rate (toTaxBracket (scaleSegment f s)) = segmentRate s"
  by (simp add: toTaxBracket_def scaleSegment_def)

lemma indexed_tax_monotone:
  assumes "0 \<le> 1 + r"
    and "list_all (\<lambda>s. bounds_ordered (toTaxBracket s) \<and> 0 \<le> segmentRate s) (segments t)"
    and "x \<le> y"
  shows "bracketTax (map toTaxBracket (segments (indexTable t r n))) x
         \<le> bracketTax (map toTaxBracket (segments (indexTable t r n))) y"
proof -
  have "0 \<le> (1 + r) ^ n" using assms(1) by simp
  then have "\<forall>b\<in>set (map toTaxBracket (segments (indexTable t r n))). bounds_ordered b \<and> 0 \<le> rate b"
    using assms(2)
    by (auto simp: indexTable_def Let_def list_all_iff scaled_bracket_rate
        intro: scaled_bracket_ordered)
  then show ?thesis using assms(3) by (rule bracketTax_mono)
qed

subsection \<open>What the reference provincial calculator returns\<close>

lemma calculateProvincialTax_marginalRate:
  "marginalRate (calculateProvincialTax od qd income prov)
     = bracketMarginalRate (taxBrackets (getProvincialData od qd prov))
         (max 0 (income - basicPersonalAmount (getProvincialData od qd prov)))"
  by (simp add: calculateProvincialTax_def bracketMarginalRate_def Let_def)

lemma calculateProvincialTax_taxOwing:
  "taxOwing (calculateProvincialTax od qd income prov)
     = bracketTax (taxBrackets (getProvincialData od qd prov))
         (max 0 (income - basicPersonalAmount (getProvincialData od qd prov)))
       + surtax (calculateProvincialTax od qd income prov)"
  by (simp add: calculateProvincialTax_def bracketTax_def Let_def)

lemma calculateProvincialTax_surtax:
  "prov \<noteq> ''ON'' \<Longrightarrow> surtax (calculateProvincialTax od qd income prov) = 0"
  by (simp add: calculateProvincialTax_def surtaxOn_def Let_def split: option.splits)

subsection \<open>What the other reference calculators return\<close>

lemma calculateIncomeTax_federal_tax:
  "taxOwing (federal (calculateIncomeTax params))
     = bracketTax federalBrackets
         (max 0 (totalIncome params
                 - (case rrspContribution params of None \<Rightarrow> 0 | Some c \<Rightarrow> c) - 15000))"
  by (simp add: calculateIncomeTax_def Let_def federal_chain_is_loop)

lemma calculateFederalTax_tax:
  "taxOwing (calculateFederalTax income prov)
     = quebecAbatement (bracketTax federalBrackets (max 0 (income - 15000))) prov"
  by (simp add: calculateFederalTax_def Let_def federal_chain_is_loop)

section \<open>The claims\<close>

subsection \<open>The bracket evaluator\<close>

text \<open>
  Claim C1. For every bracket table whose segments have ordered bounds and for every
  income, the bracket loop returns the sum, over the segments, of the portion of the
  income that falls in the segment times the segment's rate. On the table
  15 percent up to 50000, 26 percent above, an income of 75000 gives
  50000 * 0.15 + 25000 * 0.26 = 14000, not 75000 * 0.26; the reference provincial
  calculator returns that amount as tax owing, and the bracket chain of the reference
  federal and income-tax calculators is the loop on the table it spells out. The income
  of the loop is the taxable income of the calculator.
\<close>

theorem bracket_walk_accumulates:
  assumes "list_all bounds_ordered bs"
  shows "bracketTax bs income = (\<Sum>b\<leftarrow>bs. portionInSegment income b * rate b)
       \<and> bracketTax exampleTable 75000 = 50000 * (15 / 100) + 25000 * (26 / 100)
       \<and> bracketTax exampleTable 75000 = 14000
       \<and> bracketTax exampleTable 75000 \<noteq> 75000 * (26 / 100)
       \<and> taxOwing (calculateProvincialTax ontarioData exampleQuebec 75000 ''QC'') = 14000
       \<and> federalBracketChain income = bracketTax federalBrackets income
       \<and> taxOwing (federal (calculateIncomeTax params))
           = bracketTax federalBrackets
               (max 0 (totalIncome params
                       - (case rrspContribution params of None \<Rightarrow> 0 | Some c \<Rightarrow> c) - 15000))"
proof -
  have "bracketTax bs income = (\<Sum>b\<leftarrow>bs. portionInSegment income b * rate b)"
    using assms by (intro bracketTax_sum) (simp add: list_all_iff)
  moreover have "bracketTax exampleTable 75000 = 14000"
    by (simp add: example_unfold)
  moreover have "taxOwing (calculateProvincialTax ontarioData exampleQuebec 75000 ''QC'') = 14000"
    by (simp add: calculateProvincialTax_def getProvincialData_def exampleQuebec_def
      provincialData.truncate_def surtaxOn_def Let_def example_unfold)
  ultimately show ?thesis
    by (simp add: federal_chain_is_loop calculateIncomeTax_federal_tax)
qed

theorem bracket_walk_accumulates_witness:
  "list_all bounds_ordered exampleTable
   \<and> bracketTax exampleTable 40000 = (\<Sum>b\<leftarrow>exampleTable. portionInSegment 40000 b * rate b)
   \<and> bracketTax exampleTable 40000 = 6000"
proof -
  have h: "list_all bounds_ordered exampleTable"
    by (simp add: exampleTable_def bounds_ordered_def bracketMax_def)
  have "bracketTax exampleTable 40000 = 6000" by (simp add: example_unfold)
  with h bracket_walk_accumulates [OF h, of 40000 defaultData] show ?thesis by simp
qed

text \<open>
  Claim C2. For every table whose segments have ordered bounds and non-negative rates,
  the tax of the bracket loop does not decrease when the income grows; for every table
  it is zero when the income is at or below every lower bound, so it is zero at income
  zero when no segment starts below zero.
\<close>

theorem bracket_tax_monotone:
  assumes "list_all (\<lambda>b. bounds_ordered b \<and> 0 \<le> rate b) bs"
  shows "(income \<le> income' \<longrightarrow> bracketTax bs income \<le> bracketTax bs income')
       \<and> (list_all (\<lambda>b. income \<le> bracket_min b) bs \<longrightarrow> bracketTax bs income = 0)
       \<and> (list_all (\<lambda>b. 0 \<le> bracket_min b) bs \<longrightarrow> bracketTax bs 0 = 0)"
  using assms by (auto simp: list_all_iff intro: bracketTax_mono bracketTax_below)

theorem bracket_tax_monotone_witness:
  "list_all (\<lambda>b. bounds_ordered b \<and> 0 \<le> rate b) exampleTable
   \<and> (40000 :: real) \<le> 75000
   \<and> bracketTax exampleTable 40000 \<le> bracketTax exampleTable 75000
   \<and> list_all (\<lambda>b. - 5 \<le> bracket_min b) exampleTable
   \<and> bracketTax exampleTable (- 5) = 0
   \<and> list_all (\<lambda>b. 0 \<le> bracket_min b) exampleTable
   \<and> bracketTax exampleTable 0 = 0"
proof -
  have h: "list_all (\<lambda>b. bounds_ordered b \<and> 0 \<le> rate b) exampleTable"
    by (simp add: exampleTable_def bounds_ordered_def bracketMax_def)
  have z: "list_all (\<lambda>b. 0 \<le> bracket_min b) exampleTable"
    by (simp add: exampleTable_def)
  have n: "list_all (\<lambda>b. - 5 \<le> bracket_min b) exampleTable"
    by (simp add: exampleTable_def)
  from bracket_tax_monotone [OF h, of 40000 75000] bracket_tax_monotone [OF h, of "- 5" 0] h z n
  show ?thesis by simp
qed

text \<open>
  Claim C9, as the code has it. For adjacent segments of a well-formed table, the tax
  at the shared boundary exceeds the tax at an income \<open>x\<close> of the lower segment by
  exactly \<open>(boundary - x)\<close> times the lower segment's rate, which is
  \<open>(boundary - previousBoundary) * previousRate\<close> when \<open>x\<close> is the previous boundary; and
  the tax at an income \<open>y\<close> of the upper segment exceeds the tax at the boundary by
  \<open>(y - boundary)\<close> times the upper segment's rate. The tax has no jump at the boundary.
\<close>

theorem tax_continuous_at_boundary:
  assumes "wellFormedTable (pre @ b # c # post)"
  shows "(bracket_min b \<le> x \<and> x \<le> bracket_min c \<longrightarrow>
            bracketTax (pre @ b # c # post) (bracket_min c) - bracketTax (pre @ b # c # post) x
              = (bracket_min c - x) * rate b)
       \<and> bracketTax (pre @ b # c # post) (bracket_min c)
           - bracketTax (pre @ b # c # post) (bracket_min b)
           = (bracket_min c - bracket_min b) * rate b
       \<and> (bracket_min c \<le> y \<and> le_bracketMax y c \<longrightarrow>
            bracketTax (pre @ b # c # post) y - bracketTax (pre @ b # c # post) (bracket_min c)
              = (y - bracket_min c) * rate c)"
proof -
  have wfb: "wellFormedTable (b # c # post)" using assms by (rule wf_append_right)
  then have ub: "le_bracketMax (bracket_min c) b" and le: "bracket_min b \<le> bracket_min c"
    by (simp_all add: le_bracketMax_def)
  have left: "bracketTax (pre @ b # c # post) (bracket_min c) - bracketTax (pre @ b # c # post) z
              = (bracket_min c - z) * rate b" if "bracket_min b \<le> z" "z \<le> bracket_min c" for z
    using bracketTax_linear_in_segment[OF assms that ub] .
  have wf': "wellFormedTable ((pre @ [b]) @ c # post)" using assms by simp
  have right: "bracketTax (pre @ b # c # post) y - bracketTax (pre @ b # c # post) (bracket_min c)
              = (y - bracket_min c) * rate c" if "bracket_min c \<le> y" "le_bracketMax y c"
    using bracketTax_linear_in_segment[OF wf' order_refl that] by simp
  from left[of x] left[of "bracket_min b"] le right show ?thesis by blast
qed

theorem tax_continuous_at_boundary_witness:
  "wellFormedTable exampleTable
   \<and> bracketTax exampleTable 50000 - bracketTax exampleTable 49999 = (50000 - 49999) * (15 / 100)
   \<and> bracketTax exampleTable 50000 - bracketTax exampleTable 0 = (50000 - 0) * (15 / 100)
   \<and> bracketTax exampleTable 50001 - bracketTax exampleTable 50000 = (50001 - 50000) * (26 / 100)"
proof -
  let ?b = "\<lparr>bracket_min = 0, bracket_max = Some 50000, rate = 15 / 100\<rparr>"
  let ?c = "\<lparr>bracket_min = 50000, bracket_max = None, rate = 26 / 100\<rparr>"
  have e: "exampleTable = [] @ ?b # ?c # []" by (simp add: exampleTable_def)
  have wf: "wellFormedTable ([] @ ?b # ?c # [])" using example_wellFormed e by simp
  have m: "le_bracketMax 50001 ?c" by (simp add: le_bracketMax_def bracketMax_def)
  from tax_continuous_at_boundary [OF wf, of 49999 50001] m e example_wellFormed
  show ?thesis by simp
qed

theorem boundary_difference_counterexample:
  "wellFormedTable exampleTable
   \<and> bracketTax exampleTable 50000 - bracketTax exampleTable 49999 = 15 / 100
   \<and> (50000 - 0) * (15 / 100) = (7500 :: real)
   \<and> bracketTax exampleTable 50000 - bracketTax exampleTable 49999 \<noteq> (50000 - 0) * (15 / 100)"
  by (simp add: example_wellFormed) (simp add: example_unfold)

subsection \<open>The marginal rate\<close>

text \<open>
  Claim C6, as the code has it. On a well-formed table the bracket loop returns the
  rate of the segment with \<open>lowerBound < income <= upperBound\<close>, which is unique and
  exists as soon as the income is above the lowest bound; it returns 0 when the
  income is at or below the lowest bound. On the example table it returns 0.26 at
  75000 and 0.15 at 40000.
\<close>

theorem marginal_rate_of_segment:
  assumes "wellFormedTable bs"
  shows "(\<forall>b\<in>set bs. bracket_min b < income \<and> le_bracketMax income b \<longrightarrow>
            bracketMarginalRate bs income = rate b
            \<and> (\<forall>c\<in>set bs. bracket_min c < income \<and> le_bracketMax income c \<longrightarrow> c = b))
       \<and> (bs \<noteq> [] \<and> bracket_min (hd bs) < income \<longrightarrow>
            (\<exists>b\<in>set bs. bracket_min b < income \<and> le_bracketMax income b))
       \<and> (bs = [] \<or> income \<le> bracket_min (hd bs) \<longrightarrow> bracketMarginalRate bs income = 0)
       \<and> bracketMarginalRate exampleTable 75000 = 26 / 100
       \<and> bracketMarginalRate exampleTable 40000 = 15 / 100"
proof -
  have 1: "\<forall>b\<in>set bs. bracket_min b < income \<and> le_bracketMax income b \<longrightarrow>
            bracketMarginalRate bs income = rate b
            \<and> (\<forall>c\<in>set bs. bracket_min c < income \<and> le_bracketMax income c \<longrightarrow> c = b)"
    using assms marginal_in_segment[OF assms] segment_unique[OF assms]
    unfolding bracketMarginalRate_def by blast
  have 2: "bs \<noteq> [] \<and> bracket_min (hd bs) < income \<longrightarrow>
            (\<exists>b\<in>set bs. bracket_min b < income \<and> le_bracketMax income b)"
    using segment_exists[OF assms] by blast
  have 3: "bs = [] \<or> income \<le> bracket_min (hd bs) \<longrightarrow> bracketMarginalRate bs income = 0"
  proof (cases "bs = []")
    case True
    then show ?thesis by (simp add: bracketMarginalRate_def)
  next
    case False
    then show ?thesis using wf_all_lower[OF assms False] bracketMarginalRate_below by blast
  qed
  have 4: "bracketMarginalRate exampleTable 75000 = 26 / 100"
    by (simp add: example_unfold)
  have 5: "bracketMarginalRate exampleTable 40000 = 15 / 100"
    by (simp add: example_unfold)
  from 1 2 3 4 5 show ?thesis by blast
qed

theorem marginal_rate_of_segment_witness:
  "wellFormedTable exampleTable
   \<and> exampleTable ! 1 \<in> set exampleTable
   \<and> bracket_min (exampleTable ! 1) < 75000
   \<and> le_bracketMax 75000 (exampleTable ! 1)
   \<and> bracketMarginalRate exampleTable 75000 = rate (exampleTable ! 1)
   \<and> exampleTable \<noteq> []
   \<and> bracket_min (hd exampleTable) < 75000
   \<and> (\<exists>b\<in>set exampleTable. bracket_min b < 75000 \<and> le_bracketMax 75000 b)
   \<and> 0 \<le> bracket_min (hd exampleTable)
   \<and> bracketMarginalRate exampleTable 0 = 0"
proof -
  have m: "exampleTable ! 1 \<in> set exampleTable" "bracket_min (exampleTable ! 1) < 75000"
    "le_bracketMax 75000 (exampleTable ! 1)" "0 \<le> bracket_min (hd exampleTable)"
    by (simp_all add: exampleTable_def le_bracketMax_def bracketMax_def)
  have e: "exampleTable \<noteq> []" "bracket_min (hd exampleTable) < 75000"
    by (simp_all add: exampleTable_def)
  from marginal_rate_of_segment [OF example_wellFormed, of 75000] m
  have "bracketMarginalRate exampleTable 75000 = rate (exampleTable ! 1)" by blast
  moreover from marginal_rate_of_segment [OF example_wellFormed, of 75000] e
  have "\<exists>b\<in>set exampleTable. bracket_min b < 75000 \<and> le_bracketMax 75000 b" by blast
  moreover from marginal_rate_of_segment [OF example_wellFormed, of 0] m
  have "bracketMarginalRate exampleTable 0 = 0" by blast
  ultimately show ?thesis using m e example_wellFormed by blast
qed

theorem marginal_rate_below_counterexample:
  "wellFormedTable exampleTable
   \<and> (0::real) \<le> bracket_min (hd exampleTable)
   \<and> rate (hd exampleTable) = 15 / 100
   \<and> bracketMarginalRate exampleTable 0 = 0
   \<and> bracketMarginalRate exampleTable 0 \<noteq> rate (hd exampleTable)
   \<and> marginalRate (calculateProvincialTax defaultData exampleQuebec 0 ''QC'') = 0"
  by (simp add: example_wellFormed)
     (simp add: example_unfold calculateProvincialTax_def getProvincialData_def
        exampleQuebec_def provincialData.truncate_def Let_def)

subsection \<open>Indexation\<close>

text \<open>
  Claim C3. For every table, inflation rate \<open>r\<close> and number of years \<open>n\<close>,
  \<open>indexTable\<close> keeps the number of segments, multiplies every lower bound, every
  bounded upper bound and the base credit by \<open>(1 + r)^n\<close>, leaves an unbounded upper
  limit unbounded and the rates, the credit rate, the jurisdiction and the year as they
  are; with zero years it returns the table unchanged.
\<close>

theorem indexTable_scales:
  "length (segments (indexTable table r n)) = length (segments table)
   \<and> (\<forall>i < length (segments table).
         lowerBound (segments (indexTable table r n) ! i)
           = lowerBound (segments table ! i) * (1 + r) ^ n
       \<and> upperBound (segments (indexTable table r n) ! i)
           = map_option (\<lambda>u. u * (1 + r) ^ n) (upperBound (segments table ! i))
       \<and> (upperBound (segments (indexTable table r n) ! i) = None
            \<longleftrightarrow> upperBound (segments table ! i) = None)
       \<and> segmentRate (segments (indexTable table r n) ! i) = segmentRate (segments table ! i))
   \<and> baseCredit (indexTable table r n) = baseCredit table * (1 + r) ^ n
   \<and> baseCreditRate (indexTable table r n) = baseCreditRate table
   \<and> jurisdiction (indexTable table r n) = jurisdiction table
   \<and> taxYear (indexTable table r n) = taxYear table
   \<and> indexTable table r 0 = table"
proof -
  have id: "indexTable table r 0 = table"
    by (simp add: indexTable_def scaleSegment_one[abs_def])
  show ?thesis
    using id by (auto simp: indexTable_def scaleSegment_def Let_def split: option.splits)
qed

theorem indexTable_scales_witness:
  "(1::nat) < length (segments exampleBracketTable)
   \<and> lowerBound (segments (indexTable exampleBracketTable (2 / 100) 2) ! 1) = 50000 * (1 + 2 / 100) ^ 2
   \<and> lowerBound (segments (indexTable exampleBracketTable (2 / 100) 2) ! 1) = 52020
   \<and> upperBound (segments (indexTable exampleBracketTable (2 / 100) 2) ! 1) = None
   \<and> baseCredit (indexTable exampleBracketTable (2 / 100) 2) = 15606"
proof -
  have h: "(1::nat) < length (segments exampleBracketTable)"
    by (simp add: exampleBracketTable_def)
  have s: "segments exampleBracketTable ! 1 = \<lparr>lowerBound = 50000, upperBound = None, segmentRate = 26 / 100\<rparr>"
    by (simp add: exampleBracketTable_def)
  have b: "baseCredit exampleBracketTable = 15000" by (simp add: exampleBracketTable_def)
  from indexTable_scales [of exampleBracketTable "2 / 100" 2] h
  have "lowerBound (segments (indexTable exampleBracketTable (2 / 100) 2) ! 1)
           = lowerBound (segments exampleBracketTable ! 1) * (1 + 2 / 100) ^ 2
       \<and> upperBound (segments (indexTable exampleBracketTable (2 / 100) 2) ! 1)
           = map_option (\<lambda>u. u * (1 + 2 / 100) ^ 2) (upperBound (segments exampleBracketTable ! 1))
       \<and> baseCredit (indexTable exampleBracketTable (2 / 100) 2) = baseCredit exampleBracketTable * (1 + 2 / 100) ^ 2"
    by blast
  with h s b show ?thesis by (simp add: power2_eq_square)
qed

subsection \<open>Abatement, credit and effective rate\<close>

text \<open>
  Claim C4. The abatement step of the reference federal calculator multiplies the tax
  by \<open>1 - 0.165\<close> for Quebec and leaves it unchanged for every other jurisdiction, so
  the adjusted tax never exceeds a non-negative gross tax; a gross federal tax of 14000
  becomes 11690 for Quebec. The calculator's tax owing for Quebec is 0.835 times its
  tax owing for any other province on the same income. The reference provincial
  calculator reports the same reduction: for Quebec the federal tax reduction is the
  gross amount times the abatement rate, for any other province it is zero.
\<close>

theorem quebec_abatement:
  "quebecAbatement x ''QC'' = x * (1 - 165 / 1000)
   \<and> (j \<noteq> ''QC'' \<longrightarrow> quebecAbatement x j = x)
   \<and> (0 \<le> x \<longrightarrow> quebecAbatement x j \<le> x)
   \<and> quebecAbatement 14000 ''QC'' = 11690
   \<and> taxOwing (calculateFederalTax income ''QC'')
       = taxOwing (calculateFederalTax income ''ON'') * (1 - 165 / 1000)
   \<and> (j \<noteq> ''QC'' \<longrightarrow>
        taxOwing (calculateFederalTax income j) = taxOwing (calculateFederalTax income ''ON''))
   \<and> federalTaxReduction (calculateProvincialTax ontarioData quebecData income ''QC'')
       = income * (15 / 100) * federalAbatement_data quebecData
   \<and> (j \<noteq> ''QC'' \<longrightarrow>
        federalTaxReduction (calculateProvincialTax ontarioData quebecData income j) = 0)
   \<and> income * (15 / 100)
         - federalTaxReduction (calculateProvincialTax ontarioData exampleQuebec income ''QC'')
       = income * (15 / 100) * (1 - 165 / 1000)"
  by (auto simp: quebecAbatement_def calculateFederalTax_def calculateProvincialTax_def
      exampleQuebec_def Let_def mult_left_le algebra_simps)

theorem quebec_abatement_witness:
  "''ON'' \<noteq> ''QC'' \<and> quebecAbatement 14000 ''ON'' = 14000 \<and> (0::real) \<le> 14000
   \<and> quebecAbatement 14000 ''QC'' \<le> 14000
   \<and> taxOwing (calculateFederalTax 75000 ''BC'') = taxOwing (calculateFederalTax 75000 ''ON'')"
  using quebec_abatement [of 14000 "''ON''" 75000] quebec_abatement [of 14000 "''QC''" 75000] quebec_abatement [of 14000 "''BC''" 75000] by simp

text \<open>
  Claim C5. The credit step equals \<open>max(0, tax - credit)\<close>: it is never negative, equals
  \<open>tax - credit\<close> whenever the credit does not exceed the tax, and is zero when it does;
  a credit of 2000 on a tax of 11690 leaves 9690, a credit of 20000 leaves 0. The net
  tax of every reference calculator is this step on its tax owing and credits.
\<close>

theorem credit_floor:
  "netTaxAfterCredit tax credit = max 0 (tax - credit)
   \<and> 0 \<le> netTaxAfterCredit tax credit
   \<and> (credit \<le> tax \<longrightarrow> netTaxAfterCredit tax credit = tax - credit)
   \<and> (tax \<le> credit \<longrightarrow> netTaxAfterCredit tax credit = 0)
   \<and> netTaxAfterCredit 11690 2000 = 9690
   \<and> netTaxAfterCredit 11690 20000 = 0
   \<and> netTax (calculateProvincialTax ontarioData quebecData income prov)
       = netTaxAfterCredit (taxOwing (calculateProvincialTax ontarioData quebecData income prov))
           (nonRefundableCredits (calculateProvincialTax ontarioData quebecData income prov))
   \<and> netTax (calculateFederalTax income prov)
       = netTaxAfterCredit (taxOwing (calculateFederalTax income prov))
           (nonRefundableCredits (calculateFederalTax income prov))
   \<and> netTax (federal (calculateIncomeTax params))
       = netTaxAfterCredit (taxOwing (federal (calculateIncomeTax params)))
           (nonRefundableCredits (federal (calculateIncomeTax params)))
   \<and> netTax (provincial (calculateIncomeTax params))
       = netTaxAfterCredit (taxOwing (provincial (calculateIncomeTax params)))
           (nonRefundableCredits (provincial (calculateIncomeTax params)))"
  by (simp add: netTaxAfterCredit_def calculateProvincialTax_def calculateFederalTax_def
      calculateIncomeTax_def Let_def)

theorem credit_floor_witness:
  "(2000::real) \<le> 11690 \<and> netTaxAfterCredit 11690 2000 = 11690 - 2000
   \<and> (11690::real) \<le> 20000 \<and> netTaxAfterCredit 11690 20000 = 0"
  using credit_floor [of 11690 2000 defaultData exampleQuebec 0 "''ON''"]
        credit_floor [of 11690 20000 defaultData exampleQuebec 0 "''ON''"] by simp

text \<open>
  Claim C7. The effective rate of the service is the total tax divided by the income
  when the income is greater than zero, and zero otherwise (income zero, negative or
  \<open>NaN\<close>); for a finite total tax it is finite whatever the income, so the division by
  zero that would give \<open>Infinity\<close> or \<open>NaN\<close> never happens. The reference
  calculators guard their effective and average rates in the same way.
\<close>

theorem effective_rate_guard:
  "(js_gt income (Fin 0) \<longrightarrow> effectiveTaxRate tax income = js_div tax income)
   \<and> (\<not> js_gt income (Fin 0) \<longrightarrow> effectiveTaxRate tax income = Fin 0)
   \<and> effectiveTaxRate tax (Fin 0) = Fin 0
   \<and> effectiveTaxRate tax NaN = Fin 0
   \<and> (0 < i \<longrightarrow> effectiveTaxRate (Fin t) (Fin i) = Fin (t / i))
   \<and> (i \<le> 0 \<longrightarrow> effectiveTaxRate (Fin t) (Fin i) = Fin 0)
   \<and> (isFinite tax \<longrightarrow> isFinite (effectiveTaxRate tax income))
   \<and> effectiveRate (calculateProvincialTax ontarioData quebecData i prov)
       = (if i > 0 then taxOwing (calculateProvincialTax ontarioData quebecData i prov) / i else 0)
   \<and> averageRate (combined (calculateIncomeTax params))
       = (if totalIncome params > 0
          then netTaxOwing (combined (calculateIncomeTax params)) / totalIncome params else 0)"
proof -
  have "isFinite tax \<longrightarrow> isFinite (effectiveTaxRate tax income)"
    by (simp add: effectiveTaxRate_finite)
  moreover have "effectiveRate (calculateProvincialTax ontarioData quebecData i prov)
       = (if i > 0 then taxOwing (calculateProvincialTax ontarioData quebecData i prov) / i else 0)"
    by (simp add: calculateProvincialTax_def Let_def)
  moreover have "averageRate (combined (calculateIncomeTax params))
       = (if totalIncome params > 0
          then netTaxOwing (combined (calculateIncomeTax params)) / totalIncome params else 0)"
    by (simp add: calculateIncomeTax_def Let_def)
  ultimately show ?thesis
    by (simp add: effectiveTaxRate_def js_gt_def)
qed

theorem effective_rate_guard_witness:
  "js_gt (Fin 75000) (Fin 0) \<and> effectiveTaxRate (Fin 14000) (Fin 75000) = Fin (14000 / 75000)
   \<and> \<not> js_gt (Fin 0) (Fin 0) \<and> effectiveTaxRate (Fin 14000) (Fin 0) = Fin 0
   \<and> js_div (Fin 14000) (Fin 0) = PosInf \<and> js_div (Fin 0) (Fin 0) = NaN
   \<and> isFinite (Fin 14000) \<and> isFinite (effectiveTaxRate (Fin 14000) (Fin 0))"
  using effective_rate_guard [of "Fin 75000" "Fin 14000" 75000 14000 defaultData exampleQuebec "''ON''"]
        effective_rate_guard [of "Fin 0" "Fin 14000" 0 14000 defaultData exampleQuebec "''ON''"]
  by (simp add: js_gt_def)

subsection \<open>The income policy of the evaluator\<close>

text \<open>
  Claim C8. For every income that is negative or not finite (\<open>NaN\<close> and the infinities
  included), \<open>evaluateTax\<close> returns a value, the one it returns for income zero; that
  value is zero tax for every table whose lowest segment starts at zero or above.
\<close>

theorem income_clamped:
  "(negativeOrNonFinite income \<longrightarrow> evaluateTax t income = evaluateTax t (Fin 0))
   \<and> (negativeOrNonFinite income \<and> startsAtOrAboveZero t \<longrightarrow> evaluateTax t income = 0)
   \<and> evaluateTax exampleBracketTable NaN = 0
   \<and> evaluateTax exampleBracketTable (Fin (- 1000)) = 0
   \<and> evaluateTax exampleBracketTable PosInf = 0
   \<and> evaluateTax exampleBracketTable NegInf = 0
   \<and> evaluateTax exampleBracketTable (Fin 75000) = 14000"
proof -
  have a: "negativeOrNonFinite income \<longrightarrow> evaluateTax t income = evaluateTax t (Fin 0)"
    by (simp add: evaluateTax_def clampIncome_bad)
  have b: "negativeOrNonFinite income \<and> startsAtOrAboveZero t \<longrightarrow> evaluateTax t income = 0"
    by (simp add: evaluateTax_def clampIncome_bad walk_zero)
  have c: "evaluateTax exampleBracketTable n = 0" if "negativeOrNonFinite n" for n
    using that by (simp add: evaluateTax_def clampIncome_bad exampleBracketTable_def clamp_def Let_def)
  have d: "evaluateTax exampleBracketTable (Fin 75000) = 14000"
    by (simp add: evaluateTax_def exampleBracketTable_def clamp_def Let_def)
  from a b c[of NaN] c[of "Fin (- 1000)"] c[of PosInf] c[of NegInf] d show ?thesis by simp
qed

theorem income_clamped_witness:
  "negativeOrNonFinite (Fin (- 1000)) \<and> startsAtOrAboveZero exampleBracketTable
   \<and> evaluateTax exampleBracketTable (Fin (- 1000)) = evaluateTax exampleBracketTable (Fin 0)
   \<and> evaluateTax exampleBracketTable (Fin (- 1000)) = 0"
proof -
  have h: "negativeOrNonFinite (Fin (- 1000))" by simp
  have w: "startsAtOrAboveZero exampleBracketTable"
    by (simp add: startsAtOrAboveZero_def exampleBracketTable_def)
  from income_clamped [of "Fin (- 1000)" exampleBracketTable] h w show ?thesis by blast
qed

subsection \<open>The validation middleware\<close>

text \<open>
  Claim C10, as the code has it. The validation middleware of the income-tax endpoint
  answers 400 with code \<open>VALIDATION_ERROR\<close>, and the handler is not run, if and only if
  the body is not acceptable: it is not an object, or \<open>grossIncome\<close> is missing, not a
  number, negative or above 10000000, or \<open>province\<close> is missing or not one of the 13
  codes, or a supplied \<open>year\<close>, \<open>inflationRate\<close> or \<open>yearsToInflate\<close> is not a number
  within its range. A property that the schema does not list is removed from the body
  and is no cause of rejection. A body that reaches the handler has no unlisted
  property and a finite \<open>grossIncome\<close> between 0 and 10000000.
\<close>

theorem validation_gate:
  "(validateRequest incomeTaxRequestSchema body = Respond validationError
      \<longleftrightarrow> \<not> acceptableBody body)
   \<and> (\<not> acceptableBody body \<longrightarrow> incomeTaxRoute handler body = Inl validationError)
   \<and> (acceptableBody body \<longrightarrow>
        (\<exists>kvs. body = JObj kvs
           \<and> validateRequest incomeTaxRequestSchema body
               = CallNext (JObj (filter (\<lambda>(k, v). listedKey k) kvs))))
   \<and> (validateRequest incomeTaxRequestSchema body = CallNext body' \<longrightarrow>
        \<not> hasExtraProperty body'
        \<and> (\<exists>kvs x. body' = JObj kvs \<and> map_of kvs ''grossIncome'' = Some (JNum (Fin x))
              \<and> 0 \<le> x \<and> x \<le> 10000000))"
proof -
  have 1: "validateRequest incomeTaxRequestSchema body = Respond validationError
      \<longleftrightarrow> \<not> acceptableBody body"
    by (simp add: validateRequest_cases)
  have 2: "\<not> acceptableBody body \<longrightarrow> incomeTaxRoute handler body = Inl validationError"
    by (simp add: incomeTaxRoute_def validateRequest_cases)
  have 3: "\<exists>kvs. body = JObj kvs
           \<and> validateRequest incomeTaxRequestSchema body
               = CallNext (JObj (filter (\<lambda>(k, v). listedKey k) kvs))" if acc: "acceptableBody body"
  proof -
    from acc obtain kvs where b: "body = JObj kvs"
      by (cases body) (simp_all add: acceptableBody_def)
    with acc show ?thesis by (simp add: validateRequest_cases validate_data)
  qed
  have 4: "\<not> hasExtraProperty body'
        \<and> (\<exists>kvs x. body' = JObj kvs \<and> map_of kvs ''grossIncome'' = Some (JNum (Fin x))
              \<and> 0 \<le> x \<and> x \<le> 10000000)"
    if nxt: "validateRequest incomeTaxRequestSchema body = CallNext body'"
  proof -
    from nxt have acc: "acceptableBody body"
      by (simp add: validateRequest_cases split: if_splits)
    from 3[OF acc] nxt obtain kvs where b: "body = JObj kvs"
      and b': "body' = JObj (filter (\<lambda>(k, v). listedKey k) kvs)" by auto
    from acc b obtain x where x: "map_of kvs ''grossIncome'' = Some (JNum (Fin x))"
      "0 \<le> x" "x \<le> 10000000"
      by (auto simp: acceptableBody_def presentAnd_def numberWithin_def
          split: option.splits json.splits jsnum.splits)
    have "listedKey ''grossIncome''" by (simp add: listedKey_def incomeTaxRequestSchema_def)
    then have "map_of (filter (\<lambda>(k, v). listedKey k) kvs) ''grossIncome'' = Some (JNum (Fin x))"
      using x(1) by (simp add: map_of_filter_key)
    with b' x no_extra_after show ?thesis by blast
  qed
  from 1 2 3 4 show ?thesis by blast
qed

theorem validation_gate_witness:
  "\<not> acceptableBody (JObj [(''grossIncome'', JNum (Fin (- 1000))), (''province'', JStr ''ON'')])
   \<and> validateRequest incomeTaxRequestSchema
        (JObj [(''grossIncome'', JNum (Fin (- 1000))), (''province'', JStr ''ON'')])
      = Respond validationError
   \<and> incomeTaxRoute (\<lambda>b. b)
        (JObj [(''grossIncome'', JNum (Fin (- 1000))), (''province'', JStr ''ON'')])
      = Inl validationError
   \<and> acceptableBody bodyWithExtra
   \<and> validateRequest incomeTaxRequestSchema bodyWithExtra
      = CallNext (JObj [(''grossIncome'', JNum (Fin 75000)), (''province'', JStr ''ON'')])
   \<and> \<not> hasExtraProperty
        (JObj [(''grossIncome'', JNum (Fin 75000)), (''province'', JStr ''ON'')])"
proof -
  let ?neg = "JObj [(''grossIncome'', JNum (Fin (- 1000))), (''province'', JStr ''ON'')]"
  have n: "\<not> acceptableBody ?neg"
    by (simp add: acceptableBody_def presentAnd_def numberWithin_def)
  have a: "acceptableBody bodyWithExtra"
    by (simp add: acceptableBody_def bodyWithExtra_def presentAnd_def absentOr_def
        numberWithin_def isProvinceCode_def provinceCodes_def)
  let ?kept = "JObj [(''grossIncome'', JNum (Fin 75000)), (''province'', JStr ''ON'')]"
  from validation_gate [of ?neg "\<lambda>b. b" ?neg] n
  have r: "validateRequest incomeTaxRequestSchema ?neg = Respond validationError"
    and i: "incomeTaxRoute (\<lambda>b. b) ?neg = Inl validationError" by blast+
  from validation_gate [of bodyWithExtra "\<lambda>b. b" bodyWithExtra] a
  obtain kvs where "bodyWithExtra = JObj kvs"
    and "validateRequest incomeTaxRequestSchema bodyWithExtra
          = CallNext (JObj (filter (\<lambda>(k, v). listedKey k) kvs))" by blast
  then have c: "validateRequest incomeTaxRequestSchema bodyWithExtra = CallNext ?kept"
    by (auto simp: bodyWithExtra_def listedKey_def incomeTaxRequestSchema_def)
  with validation_gate [of bodyWithExtra "\<lambda>b. b" ?kept]
  have "\<not> hasExtraProperty ?kept" by blast
  with n a r i c show ?thesis by blast
qed

theorem extra_property_counterexample:
  "hasExtraProperty bodyWithExtra
   \<and> validateRequest incomeTaxRequestSchema bodyWithExtra
      = CallNext (JObj [(''grossIncome'', JNum (Fin 75000)), (''province'', JStr ''ON'')])
   \<and> validateRequest incomeTaxRequestSchema bodyWithExtra \<noteq> Respond validationError"
  by (simp add: hasExtraProperty_def bodyWithExtra_def validateRequest_def validate_def
      incomeTaxRequestSchema_def provinceCodes_def js_gt_def)

end
